theory Spec2Isabelle
  imports Main "HOL-Library.Sublist" "HOL-Library.Word"
begin

section \<open>Values\<close>

text \<open>
  The parameter structures of the library are JavaScript values: scalars, dates, arrays and
  plain objects. A \<open>Date\<close> is represented by the two renderings the program can observe:
  \<open>toISOString()\<close> (used by \<open>JSON.stringify\<close> and by the query-string encoder) and
  \<open>toString()\<close> (used when a date is concatenated into a path); dates are valid dates
  without properties of their own. A number is represented likewise, by the text that
  \<open>String(n)\<close> yields (\<open>0\<close>, \<open>-15\<close>, \<open>1.5\<close>, \<open>1e+21\<close>, \<open>NaN\<close>, \<open>Infinity\<close>): the
  program looks at a number only through that text and through its truthiness. Functions,
  symbols and class instances are outside the model. A string is a list of code units
  below 256. An object is a plain object, given as the list of its own enumerable
  properties in enumeration order, each key occurring once. An array is dense: the program
  cannot tell a hole from an \<open>undefined\<close> element, so a hole is written \<open>undefined\<close>.
\<close>

datatype jsdate = JSDate (iso_text: string) (human_text: string)

datatype jsval =
    JUndefined
  | JNull
  | JBool bool
  | JNum string
  | JStr string
  | JDate jsdate
  | JArr "jsval list"
  | JObj "(string \<times> jsval) list"

text \<open>Truthiness, as tested by \<open>if (v)\<close>, \<open>!v\<close> and \<open>v || w\<close>.\<close>

fun truthy :: "jsval \<Rightarrow> bool" where
  "truthy JUndefined = False"
| "truthy JNull = False"
| "truthy (JBool b) = b"
| "truthy (JNum t) = (t \<noteq> ''0'' \<and> t \<noteq> ''NaN'')"
| "truthy (JStr s) = (s \<noteq> [])"
| "truthy (JDate d) = True"
| "truthy (JArr xs) = True"
| "truthy (JObj kvs) = True"

definition nullish :: "jsval \<Rightarrow> bool" where
  "nullish v = (v = JUndefined \<or> v = JNull)"

text \<open>\<open>typeof v === 'object'\<close> holds of \<open>null\<close>, dates, arrays and objects.\<close>

definition is_typeof_object :: "jsval \<Rightarrow> bool" where
  "is_typeof_object v = (case v of JNull \<Rightarrow> True | JDate d \<Rightarrow> True | JArr xs \<Rightarrow> True
                          | JObj kvs \<Rightarrow> True | _ \<Rightarrow> False)"

definition is_Date :: "jsval \<Rightarrow> bool" where
  "is_Date v = (case v of JDate d \<Rightarrow> True | _ \<Rightarrow> False)"

text \<open>
  \<open>{ ...accum, [k]: v }\<close> and \<open>o[k] = v\<close>: an existing key keeps its place and takes the
  new value, a new key goes to the end.
\<close>

fun obj_set :: "(string \<times> jsval) list \<Rightarrow> string \<Rightarrow> jsval \<Rightarrow> (string \<times> jsval) list" where
  "obj_set [] k v = [(k, v)]"
| "obj_set ((k', v') # kvs) k v = (if k' = k then (k, v) # kvs else (k', v') # obj_set kvs k v)"

subsection \<open>Errors\<close>

text \<open>
  The error class of the library, and what a call can throw: the platform's \<open>TypeError\<close>
  and \<open>SyntaxError\<close>, a failure of the transport, or an \<open>APIError\<close>. A response status is
  an unsigned 16-bit number.
\<close>

record APIError =
  name :: string
  message :: string
  status :: "16 word"
  requestIdentifier :: string
  traceId :: string

datatype exn = TypeError | SyntaxError | NetworkError | Thrown APIError

subsection \<open>Rendering values as text\<close>

fun show_nat :: "nat \<Rightarrow> string" where
  "show_nat n = (if n < 10 then [''0123456789'' ! n]
                 else show_nat (n div 10) @ [''0123456789'' ! (n mod 10)])"

declare show_nat.simps [simp del]

fun join_strings :: "string \<Rightarrow> string list \<Rightarrow> string" where
  "join_strings sep [] = []"
| "join_strings sep [s] = s"
| "join_strings sep (s # t # ts) = s @ sep @ join_strings sep (t # ts)"

text \<open>The results of a run of steps, or the first failure among them.\<close>

fun collect_results :: "('e + 'a) list \<Rightarrow> 'e + 'a list" where
  "collect_results [] = Inr []"
| "collect_results (Inl e # rs) = Inl e"
| "collect_results (Inr x # rs) =
     (case collect_results rs of Inl e \<Rightarrow> Inl e | Inr xs \<Rightarrow> Inr (x # xs))"

text \<open>
  \<open>String(v)\<close>. An array renders as its elements joined by commas. A plain object renders
  as \<open>[object Object]\<close> through the inherited \<open>toString\<close>; when it has a property
  \<open>toString\<close> of its own, that property is no function (the model has none), the inherited
  \<open>valueOf\<close> returns the object itself, and the conversion throws a \<open>TypeError\<close>.
\<close>

fun js_toString :: "jsval \<Rightarrow> exn + string" where
  "js_toString JUndefined = Inr ''undefined''"
| "js_toString JNull = Inr ''null''"
| "js_toString (JBool b) = Inr (if b then ''true'' else ''false'')"
| "js_toString (JNum t) = Inr t"
| "js_toString (JStr s) = Inr s"
| "js_toString (JDate d) = Inr (human_text d)"
| "js_toString (JArr xs) =
     map_sum id (join_strings '','')
       (collect_results (map (\<lambda>v. if nullish v then Inr [] else js_toString v) xs))"
| "js_toString (JObj kvs) =
     (if ''toString'' \<in> set (map fst kvs) then Inl TypeError else Inr ''[object Object]'')"

text \<open>
  \<open>xs.join(sep)\<close>: \<open>undefined\<close> and \<open>null\<close> elements contribute the empty string, every
  other element its text; the first element that cannot be rendered makes the call throw.
\<close>

definition array_join :: "string \<Rightarrow> jsval list \<Rightarrow> exn + string" where
  "array_join sep xs =
     map_sum id (join_strings sep)
       (collect_results (map (\<lambda>v. if nullish v then Inr [] else js_toString v) xs))"

subsection \<open>Properties\<close>

text \<open>
  The own properties of a value: the entries of an object, and the indices and \<open>length\<close>
  of an array or a string.
\<close>

definition index_of_key :: "nat \<Rightarrow> string \<Rightarrow> nat option" where
  "index_of_key n k = find (\<lambda>i. show_nat i = k) [0..<n]"

fun own_prop :: "jsval \<Rightarrow> string \<Rightarrow> jsval option" where
  "own_prop (JObj kvs) k = map_of kvs k"
| "own_prop (JArr xs) k =
     (case index_of_key (length xs) k of
        Some i \<Rightarrow> Some (xs ! i)
      | None \<Rightarrow> if k = ''length'' then Some (JNum (show_nat (length xs))) else None)"
| "own_prop (JStr s) k =
     (case index_of_key (length s) k of
        Some i \<Rightarrow> Some (JStr [s ! i])
      | None \<Rightarrow> if k = ''length'' then Some (JNum (show_nat (length s))) else None)"
| "own_prop v k = None"

text \<open>
  Reading \<open>v[k]\<close>. A key that is no own property is looked up along the prototype chain
  of \<open>v\<close> (\<open>Object.prototype\<close>, \<open>Array.prototype\<close> and so on). What the chain holds is a
  parameter \<open>inherited\<close> of the model: \<open>inherited v k\<close> is the value found there, or
  \<open>undefined\<close>; a function found there is given by the text of its source, which is all a
  path can show of it. Reading a property of \<open>undefined\<close> or \<open>null\<close> throws.
\<close>

type_synonym prototypes = "jsval \<Rightarrow> string \<Rightarrow> jsval"

definition get_prop :: "prototypes \<Rightarrow> jsval \<Rightarrow> string \<Rightarrow> jsval" where
  "get_prop inherited v k = (case own_prop v k of Some w \<Rightarrow> w | None \<Rightarrow> inherited v k)"

definition read_prop :: "prototypes \<Rightarrow> jsval \<Rightarrow> string \<Rightarrow> exn + jsval" where
  "read_prop inherited v k = (if nullish v then Inl TypeError else Inr (get_prop inherited v k))"

text \<open>
  \<open>v?.k\<close>, and \<open>const { k } = v\<close>, for the keys \<open>error\<close>, \<open>message\<close>, \<open>body\<close> and
  \<open>headers\<close>, which no standard prototype defines: the own property, or \<open>undefined\<close>.
\<close>

definition optional_prop :: "jsval \<Rightarrow> string \<Rightarrow> jsval" where
  "optional_prop v k = (case own_prop v k of Some w \<Rightarrow> w | None \<Rightarrow> JUndefined)"

text \<open>
  \<open>delete v[k]\<close> in strict code. An own property of an object goes. An element of an
  array leaves a hole. The \<open>length\<close> of an array, and the indices and the \<open>length\<close> of a
  string, cannot be deleted, and the attempt throws. Any other key deletes nothing.
\<close>

fun delete_prop :: "jsval \<Rightarrow> string \<Rightarrow> exn + jsval" where
  "delete_prop (JObj kvs) k = Inr (JObj (filter (\<lambda>(k', v). k' \<noteq> k) kvs))"
| "delete_prop (JArr xs) k =
     (case index_of_key (length xs) k of
        Some i \<Rightarrow> Inr (JArr (xs[i := JUndefined]))
      | None \<Rightarrow> if k = ''length'' then Inl TypeError else Inr (JArr xs))"
| "delete_prop (JStr s) k =
     (case index_of_key (length s) k of
        Some i \<Rightarrow> Inl TypeError
      | None \<Rightarrow> if k = ''length'' then Inl TypeError else Inr (JStr s))"
| "delete_prop JUndefined k = Inl TypeError"
| "delete_prop JNull k = Inl TypeError"
| "delete_prop v k = Inr v"

text \<open>The own enumerable properties, as \<open>Object.keys\<close>, \<open>Object.entries\<close> and spread see them.\<close>

fun own_entries :: "jsval \<Rightarrow> (string \<times> jsval) list" where
  "own_entries (JObj kvs) = kvs"
| "own_entries (JArr xs) = zip (map show_nat [0..<length xs]) xs"
| "own_entries (JStr s) = zip (map show_nat [0..<length s]) (map (\<lambda>c. JStr [c]) s)"
| "own_entries v = []"

text \<open>\<open>v || {}\<close>.\<close>

definition or_empty :: "jsval \<Rightarrow> jsval" where
  "or_empty v = (if truthy v then v else JObj [])"

text \<open>\<open>{ ...acc, ...v }\<close>.\<close>

definition spread_with :: "(string \<times> jsval) list \<Rightarrow> jsval \<Rightarrow> (string \<times> jsval) list" where
  "spread_with acc v = foldl (\<lambda>a (k, w). obj_set a k w) acc (own_entries v)"

subsection \<open>JSON\<close>

definition hex_lower :: "nat \<Rightarrow> char" where
  "hex_lower n = ''0123456789abcdef'' ! (n mod 16)"

definition hex_upper :: "nat \<Rightarrow> char" where
  "hex_upper n = ''0123456789ABCDEF'' ! (n mod 16)"

definition json_escape_char :: "char \<Rightarrow> string" where
  "json_escape_char c =
     (if c = CHR 0x08 then [CHR 0x5C, CHR ''b'']
      else if c = CHR 0x09 then [CHR 0x5C, CHR ''t'']
      else if c = CHR 0x0A then [CHR 0x5C, CHR ''n'']
      else if c = CHR 0x0C then [CHR 0x5C, CHR ''f'']
      else if c = CHR 0x0D then [CHR 0x5C, CHR ''r'']
      else if c = CHR 0x22 then [CHR 0x5C, CHR 0x22]
      else if c = CHR 0x5C then [CHR 0x5C, CHR 0x5C]
      else if (of_char c :: nat) < 32
        then [CHR 0x5C, CHR ''u'', CHR ''0'', CHR ''0'',
              hex_lower ((of_char c :: nat) div 16), hex_lower (of_char c)]
      else [c])"

definition json_quote :: "string \<Rightarrow> string" where
  "json_quote s = [CHR 0x22] @ concat (map json_escape_char s) @ [CHR 0x22]"

definition non_finite :: "string \<Rightarrow> bool" where
  "non_finite t \<longleftrightarrow> t = ''NaN'' \<or> t = ''Infinity'' \<or> t = ''-Infinity''"

text \<open>
  \<open>JSON.stringify(v)\<close> without indentation. It yields no text for \<open>undefined\<close>; inside an
  array \<open>undefined\<close> is written \<open>null\<close>, inside an object the property is left out. A
  date is written as its ISO text, a number that is not finite as \<open>null\<close>.
\<close>

fun JSON_stringify :: "jsval \<Rightarrow> string option" where
  "JSON_stringify JUndefined = None"
| "JSON_stringify JNull = Some ''null''"
| "JSON_stringify (JBool b) = Some (if b then ''true'' else ''false'')"
| "JSON_stringify (JNum t) = Some (if non_finite t then ''null'' else t)"
| "JSON_stringify (JStr s) = Some (json_quote s)"
| "JSON_stringify (JDate d) = Some (json_quote (iso_text d))"
| "JSON_stringify (JArr xs) =
     Some (''['' @ join_strings '',''
            (map (\<lambda>v. case JSON_stringify v of None \<Rightarrow> ''null'' | Some t \<Rightarrow> t) xs) @ '']'')"
| "JSON_stringify (JObj kvs) =
     Some (''{'' @ join_strings '',''
            (concat (map (\<lambda>(k, v). case JSON_stringify v of
                                        None \<Rightarrow> []
                                      | Some t \<Rightarrow> [json_quote k @ '':'' @ t]) kvs)) @ ''}'')"

text \<open>
  The value that \<open>JSON.parse\<close> reads back from the text \<open>JSON.stringify\<close> writes for a
  value in element position: the same tree, with dates turned into their ISO text,
  \<open>undefined\<close> elements and numbers that are not finite into \<open>null\<close>, and \<open>undefined\<close>
  properties dropped.
\<close>

fun json_copy :: "jsval \<Rightarrow> jsval" where
  "json_copy JUndefined = JNull"
| "json_copy JNull = JNull"
| "json_copy (JBool b) = JBool b"
| "json_copy (JNum t) = (if non_finite t then JNull else JNum t)"
| "json_copy (JStr s) = JStr s"
| "json_copy (JDate d) = JStr (iso_text d)"
| "json_copy (JArr xs) = JArr (map json_copy xs)"
| "json_copy (JObj kvs) =
     JObj (concat (map (\<lambda>(k, v). if v = JUndefined then [] else [(k, json_copy v)]) kvs))"

text \<open>\<open>JSON.parse(JSON.stringify(v))\<close>; at top level \<open>undefined\<close> has no text to parse.\<close>

definition JSON_parse_stringify :: "jsval \<Rightarrow> exn + jsval" where
  "JSON_parse_stringify v = (if v = JUndefined then Inl SyntaxError else Inr (json_copy v))"

section \<open>Parameter sanitizer\<close>

text \<open>\<open>['', null, undefined].includes(v)\<close>.\<close>

definition is_absent :: "jsval \<Rightarrow> bool" where
  "is_absent v = (v = JStr [] \<or> v = JNull \<or> v = JUndefined)"

fun prepareParameters :: "jsval \<Rightarrow> jsval" where
  "prepareParameters JUndefined = JNull"
| "prepareParameters JNull = JNull"
| "prepareParameters (JStr s) = (if s = [] then JNull else JStr s)"
| "prepareParameters (JArr xs) =
     JArr (foldl (\<lambda>accum curr.
             let prepared = prepareParameters curr
             in if truthy prepared then accum @ [prepared] else accum) [] xs)"
| "prepareParameters (JDate d) = JDate d"
| "prepareParameters (JObj kvs) =
     JObj (foldl (\<lambda>accum (k, v).
             if \<not> is_absent v then obj_set accum k (prepareParameters v) else accum) [] kvs)"
| "prepareParameters (JBool b) = JBool b"
| "prepareParameters (JNum t) = JNum t"

section \<open>Query string builder\<close>

text \<open>
  The encoder of the \<open>qs\<close> package (UTF-8, RFC 3986): letters, digits and \<open>-._~\<close> stay,
  every other code unit is percent-encoded with upper-case hexadecimal digits.
\<close>

definition qs_unreserved :: "char \<Rightarrow> bool" where
  "qs_unreserved c \<longleftrightarrow>
     c \<in> set ''-._~0123456789ABCDEFGHIJKLMNOPQRSTUVWXYZabcdefghijklmnopqrstuvwxyz''"

definition hexTable :: "nat \<Rightarrow> string" where
  "hexTable i = [CHR ''%'', hex_upper (i div 16), hex_upper i]"

definition qs_encode_char :: "char \<Rightarrow> string" where
  "qs_encode_char c =
     (let n = (of_char c :: nat)
      in if qs_unreserved c then [c]
         else if n < 128 then hexTable n
         else hexTable (192 + n div 64) @ hexTable (128 + n mod 64))"

definition qs_encode :: "string \<Rightarrow> string" where
  "qs_encode str = concat (map qs_encode_char str)"

text \<open>
  \<open>stringify\<close> of the \<open>qs\<close> package under the options the source passes:
  \<open>addQueryPrefix: true\<close>, \<open>arrayFormat: 'repeat'\<close>, \<open>allowDots: true\<close>,
  \<open>skipNulls: true\<close>. The inner function yields the \<open>key=value\<close> pairs of one value
  under a key: an array repeats the key for each element, an object appends \<open>.name\<close> to
  the key, \<open>null\<close> members are skipped.
\<close>

fun qs_stringify_inner :: "jsval \<Rightarrow> string \<Rightarrow> string list" where
  "qs_stringify_inner (JDate d) pfx = [qs_encode pfx @ ''='' @ qs_encode (iso_text d)]"
| "qs_stringify_inner JNull pfx = [qs_encode pfx @ ''='' @ qs_encode []]"
| "qs_stringify_inner (JStr s) pfx = [qs_encode pfx @ ''='' @ qs_encode s]"
| "qs_stringify_inner (JNum t) pfx = [qs_encode pfx @ ''='' @ qs_encode t]"
| "qs_stringify_inner (JBool b) pfx =
     [qs_encode pfx @ ''='' @ qs_encode (if b then ''true'' else ''false'')]"
| "qs_stringify_inner JUndefined pfx = []"
| "qs_stringify_inner (JArr xs) pfx =
     concat (map (\<lambda>v. if v = JNull then [] else qs_stringify_inner v pfx) xs)"
| "qs_stringify_inner (JObj kvs) pfx =
     concat (map (\<lambda>(k, v). if v = JNull then []
                             else qs_stringify_inner v (pfx @ ''.'' @ k)) kvs)"

definition qs_stringify :: "jsval \<Rightarrow> string" where
  "qs_stringify obj =
     (if \<not> is_typeof_object obj \<or> obj = JNull then []
      else let keys = concat (map (\<lambda>(k, v). if v = JNull then [] else qs_stringify_inner v k)
                                  (own_entries obj));
               joined = join_strings ''&'' keys
           in if joined \<noteq> [] then ''?'' @ joined else [])"

text \<open>
  The loop of \<open>buildSearchString\<close> over \<open>Object.keys(preparedParams)\<close>: a member with
  \<open>typeof\<close> \<open>'object'\<close> that is not a date is replaced by its JSON text.
\<close>

definition stringify_value :: "jsval \<Rightarrow> jsval" where
  "stringify_value v =
     (if is_typeof_object v \<and> \<not> is_Date v
      then (case JSON_stringify v of Some t \<Rightarrow> JStr t | None \<Rightarrow> JUndefined)
      else v)"

fun stringify_members :: "jsval \<Rightarrow> jsval" where
  "stringify_members (JObj kvs) = JObj (map (\<lambda>(k, v). (k, stringify_value v)) kvs)"
| "stringify_members (JArr xs) = JArr (map stringify_value xs)"
| "stringify_members v = v"

definition buildSearchString :: "jsval \<Rightarrow> string" where
  "buildSearchString params =
     (let preparedParams = prepareParameters params
      in if \<not> truthy preparedParams then []
         else qs_stringify (if is_typeof_object preparedParams
                            then stringify_members preparedParams
                            else preparedParams))"

section \<open>Path resolver\<close>

text \<open>\<open>pathname.split('/')\<close>, \<open>segment.startsWith(':')\<close> and \<open>segment.slice(1)\<close>.\<close>

fun split_slash :: "string \<Rightarrow> string list" where
  "split_slash [] = [[]]"
| "split_slash (c # cs) =
     (if c = CHR ''/'' then [] # split_slash cs
      else (case split_slash cs of [] \<Rightarrow> [[c]] | s # ss \<Rightarrow> (c # s) # ss))"

definition startsWith_colon :: "string \<Rightarrow> bool" where
  "startsWith_colon segment = (case segment of [] \<Rightarrow> False | c # cs \<Rightarrow> c = CHR '':'')"

definition slice1 :: "string \<Rightarrow> string" where
  "slice1 segment = drop 1 segment"

text \<open>
  \<open>new URL(url, base).pathname\<close>, after the URL Standard. The constructor parses
  \<open>base\<close> first, on its own, and throws a \<open>TypeError\<close> when that fails. The parser
  strips leading and trailing control characters and spaces, drops tabs and newlines, and
  then reads a scheme: an ASCII letter, then letters, digits, \<open>+\<close>, \<open>-\<close> or \<open>.\<close>, up
  to a colon. Without a scheme it enters its no-scheme state, which returns failure when
  the string being parsed has no base of its own. A base without a scheme (a relative
  path such as \<open>/api/v1\<close>) therefore always makes the constructor throw. What the parser
  does with a base that has a scheme is a parameter \<open>absolute\<close> of the model.
\<close>

definition c0_or_space :: "char \<Rightarrow> bool" where
  "c0_or_space c \<longleftrightarrow> (of_char c :: nat) \<le> 32"

definition tab_or_newline :: "char \<Rightarrow> bool" where
  "tab_or_newline c \<longleftrightarrow> c = CHR 0x09 \<or> c = CHR 0x0A \<or> c = CHR 0x0D"

definition url_input :: "string \<Rightarrow> string" where
  "url_input s =
     filter (\<lambda>c. \<not> tab_or_newline c)
       (rev (dropWhile c0_or_space (rev (dropWhile c0_or_space s))))"

definition ascii_alpha :: "char \<Rightarrow> bool" where
  "ascii_alpha c \<longleftrightarrow> c \<in> set ''ABCDEFGHIJKLMNOPQRSTUVWXYZabcdefghijklmnopqrstuvwxyz''"

definition scheme_char :: "char \<Rightarrow> bool" where
  "scheme_char c \<longleftrightarrow> ascii_alpha c \<or> c \<in> set ''0123456789+-.''"

fun scheme_state :: "string \<Rightarrow> bool" where
  "scheme_state [] = False"
| "scheme_state (c # cs) = (if scheme_char c then scheme_state cs else c = CHR '':'')"

definition has_scheme :: "string \<Rightarrow> bool" where
  "has_scheme s =
     (case url_input s of [] \<Rightarrow> False | c # cs \<Rightarrow> ascii_alpha c \<and> scheme_state cs)"

type_synonym url_parser = "string \<Rightarrow> string \<Rightarrow> exn + string"

definition URL_pathname :: "url_parser \<Rightarrow> string \<Rightarrow> string \<Rightarrow> exn + string" where
  "URL_pathname absolute url base =
     (if has_scheme base then absolute url base else Inl TypeError)"

text \<open>
  \<open>let pathname = unboundPath; if (basePath) { pathname = new URL(unboundPath,
  basePath).pathname; }\<close>
\<close>

definition resolve_pathname :: "url_parser \<Rightarrow> string \<Rightarrow> string \<Rightarrow> exn + string" where
  "resolve_pathname absolute basePath unboundPath =
     (if basePath \<noteq> [] then URL_pathname absolute unboundPath basePath else Inr unboundPath)"

section \<open>Request assemblers\<close>

datatype HTTPMethod = GET | POST | PUT | DELETE | PATCH

fun method_name :: "HTTPMethod \<Rightarrow> string" where
  "method_name GET = ''GET''"
| "method_name POST = ''POST''"
| "method_name PUT = ''PUT''"
| "method_name DELETE = ''DELETE''"
| "method_name PATCH = ''PATCH''"

text \<open>
  The loop of the merged assembler over the segments, from left to right. It carries the
  copy of the parameters: a colon segment is replaced by the value read under its key,
  and the key is deleted from the copy. The result is the new segment array and the copy
  as the loop leaves it; a read or a deletion that throws ends the loop.
\<close>

fun merged_segments ::
  "prototypes \<Rightarrow> string list \<Rightarrow> jsval \<Rightarrow> exn + (jsval list \<times> jsval)" where
  "merged_segments inherited [] paramCopy = Inr ([], paramCopy)"
| "merged_segments inherited (segment # rest) paramCopy =
     (if startsWith_colon segment
      then (case read_prop inherited paramCopy (slice1 segment) of
              Inl e \<Rightarrow> Inl e
            | Inr v \<Rightarrow>
               (case delete_prop paramCopy (slice1 segment) of
                  Inl e \<Rightarrow> Inl e
                | Inr copy' \<Rightarrow>
                   (case merged_segments inherited rest copy' of
                      Inl e \<Rightarrow> Inl e
                    | Inr (resolved, remaining) \<Rightarrow> Inr (v # resolved, remaining))))
      else (case merged_segments inherited rest paramCopy of
              Inl e \<Rightarrow> Inl e
            | Inr (resolved, remaining) \<Rightarrow> Inr (JStr segment # resolved, remaining)))"

definition buildMergedRequestInit ::
  "url_parser \<Rightarrow> prototypes \<Rightarrow> HTTPMethod \<Rightarrow> string \<Rightarrow> string \<Rightarrow> jsval \<Rightarrow> jsval
     \<Rightarrow> exn + (HTTPMethod \<times> string \<times> jsval)" where
  "buildMergedRequestInit absolute inherited method basePath unboundPath params requestInit =
     (case JSON_parse_stringify (or_empty params) of
        Inl e \<Rightarrow> Inl e
      | Inr paramCopy \<Rightarrow>
         (case resolve_pathname absolute basePath unboundPath of
            Inl e \<Rightarrow> Inl e
          | Inr pathname \<Rightarrow>
             (case merged_segments inherited (split_slash pathname) paramCopy of
                Inl e \<Rightarrow> Inl e
              | Inr (urlSegments, remaining) \<Rightarrow>
                 (case array_join ''/'' urlSegments of
                    Inl e \<Rightarrow> Inl e
                  | Inr joined \<Rightarrow>
                     (let fullPath = basePath @ joined
                      in if method = GET
                         then Inr (method, fullPath @ buildSearchString remaining, requestInit)
                         else Inr (method, fullPath,
                                   JObj (obj_set (spread_with [] (or_empty requestInit))
                                           ''body'' remaining)))))))"

text \<open>
  The loop of the split assembler. It carries the caller's path-parameter object, which
  it only reads; the second component of the result is that object after the loop.
\<close>

fun split_segments ::
  "prototypes \<Rightarrow> string list \<Rightarrow> jsval \<Rightarrow> (exn + jsval list) \<times> jsval" where
  "split_segments inherited [] pathParameters = (Inr [], pathParameters)"
| "split_segments inherited (segment # rest) pathParameters =
     (if startsWith_colon segment
      then (case read_prop inherited pathParameters (slice1 segment) of
              Inl e \<Rightarrow> (Inl e, pathParameters)
            | Inr v \<Rightarrow>
               (case split_segments inherited rest pathParameters of
                  (Inl e, after) \<Rightarrow> (Inl e, after)
                | (Inr resolved, after) \<Rightarrow> (Inr (v # resolved), after)))
      else (case split_segments inherited rest pathParameters of
              (Inl e, after) \<Rightarrow> (Inl e, after)
            | (Inr resolved, after) \<Rightarrow> (Inr (JStr segment # resolved), after)))"

text \<open>
  The split assembler returns its outcome together with the caller's path-parameter
  object as it stands when the call ends, whether it returns or throws.
\<close>

definition buildSplitRequestInit ::
  "url_parser \<Rightarrow> prototypes \<Rightarrow> HTTPMethod \<Rightarrow> string \<Rightarrow> string \<Rightarrow> jsval \<Rightarrow> jsval \<Rightarrow> jsval
     \<Rightarrow> jsval \<Rightarrow> (exn + (HTTPMethod \<times> string \<times> jsval)) \<times> jsval" where
  "buildSplitRequestInit absolute inherited method basePath unboundPath pathParameters
       queryParameters body requestInit =
     (case resolve_pathname absolute basePath unboundPath of
        Inl e \<Rightarrow> (Inl e, pathParameters)
      | Inr pathname \<Rightarrow>
         (let (segments, after) =
                (if truthy pathParameters
                 then split_segments inherited (split_slash pathname) pathParameters
                 else (Inr (map JStr (split_slash pathname)), pathParameters))
          in case segments of
               Inl e \<Rightarrow> (Inl e, after)
             | Inr urlSegments \<Rightarrow>
                (case array_join ''/'' urlSegments of
                   Inl e \<Rightarrow> (Inl e, after)
                 | Inr joined \<Rightarrow>
                    (Inr (method,
                          basePath @ joined @ buildSearchString queryParameters,
                          JObj (obj_set (spread_with [] (or_empty requestInit))
                                  ''body'' body)),
                     after))))"

section \<open>Request executor\<close>

text \<open>
  A response as the executor sees it: its status, the value of
  \<open>headers.get('Content-Type')\<close>, and what each of the four body readers would yield
  (a reader may reject, for instance \<open>json()\<close> on a body that is not JSON).
\<close>

record response =
  response_status :: "16 word"
  response_Content_Type :: "string option"
  json_outcome :: "exn + jsval"
  blob_outcome :: "exn + string"
  formData_outcome :: "exn + (string \<times> string) list"
  text_outcome :: "exn + string"

datatype parsed_body =
    JsonBody jsval
  | BlobBody string
  | FormDataBody "(string \<times> string) list"
  | TextBody string

definition response_ok :: "response \<Rightarrow> bool" where
  "response_ok r \<longleftrightarrow> 200 \<le> unat (response_status r) \<and> unat (response_status r) \<le> 299"

definition processResponse :: "response \<Rightarrow> exn + parsed_body" where
  "processResponse rawResponse =
     (let ct = response_Content_Type rawResponse
      in if ct = Some ''application/json'' then map_sum id JsonBody (json_outcome rawResponse)
         else if ct = Some ''application/pdf'' then map_sum id BlobBody (blob_outcome rawResponse)
         else if ct = Some ''multipart/form-data''
                 \<or> ct = Some ''application/x-www-form-urlencoded''
           then map_sum id FormDataBody (formData_outcome rawResponse)
         else map_sum id TextBody (text_outcome rawResponse))"

text \<open>
  \<open>errorResponse?.k\<close> on a parsed body, for the keys \<open>error\<close> and \<open>message\<close>. A blob
  and a form-data object have no such property.
\<close>

fun body_prop :: "parsed_body \<Rightarrow> string \<Rightarrow> jsval" where
  "body_prop (JsonBody v) k = optional_prop v k"
| "body_prop (TextBody s) k = optional_prop (JStr s) k"
| "body_prop (BlobBody b) k = JUndefined"
| "body_prop (FormDataBody f) k = JUndefined"

text \<open>
  The constructor of \<open>APIError\<close>. The message handed to \<open>Error\<close> is turned into text
  there, which can throw. The error response is used for the message only; the class has
  no field for it.
\<close>

definition new_APIError ::
  "16 word \<Rightarrow> string \<Rightarrow> string \<Rightarrow> parsed_body \<Rightarrow> exn + APIError" where
  "new_APIError st ident trace errorResponse =
     (let msg = (if truthy (body_prop errorResponse ''error'')
                 then body_prop errorResponse ''error''
                 else if truthy (body_prop errorResponse ''message'')
                 then body_prop errorResponse ''message''
                 else JNum (show_nat (unat st)))
      in case js_toString msg of
           Inl e \<Rightarrow> Inl e
         | Inr t \<Rightarrow> Inr \<lparr>name = ''APIError'', message = t, status = st,
                         requestIdentifier = ident, traceId = trace\<rparr>)"

text \<open>
  The options handed to \<open>fetch\<close>. \<open>uuid\<close> is \<open>None\<close> while the generator is not loaded,
  and otherwise holds the identifier it generates for this call. The platform's \<open>Headers\<close>
  constructor is a parameter \<open>new_Headers\<close> of the model: it yields the headers object, or
  throws (on a name or a value that is no valid header name or value).
\<close>

definition trace_of :: "string option \<Rightarrow> string" where
  "trace_of uuid = (case uuid of None \<Rightarrow> [] | Some generated \<Rightarrow> generated)"

definition requestOptions ::
  "(jsval \<Rightarrow> exn + jsval) \<Rightarrow> string option \<Rightarrow> HTTPMethod \<Rightarrow> jsval \<Rightarrow> exn + jsval" where
  "requestOptions new_Headers uuid method request =
     (let req = or_empty request;
          body = optional_prop req ''body'';
          headers = optional_prop req ''headers'';
          requestInit = JObj (filter (\<lambda>(k, v). k \<noteq> ''body'' \<and> k \<noteq> ''headers'')
                                (own_entries req))
      in case new_Headers
                (JObj (spread_with [(''Accept'', JStr ''application/json''),
                                    (''Content-Type'', JStr ''application/json''),
                                    (''X-Trace'', JStr (trace_of uuid))] headers)) of
           Inl e \<Rightarrow> Inl e
         | Inr hs \<Rightarrow>
            (let opts = obj_set
                          (spread_with [(''method'', JStr (method_name method)),
                                        (''credentials'', JStr ''include''),
                                        (''mode'', JStr ''cors'')] requestInit)
                          ''headers'' hs
             in Inr (JObj (if truthy body
                           then obj_set opts ''body''
                                  (case JSON_stringify body of
                                     Some t \<Rightarrow> JStr t
                                   | None \<Rightarrow> JUndefined)
                           else opts))))"

definition makeRequest ::
  "(jsval \<Rightarrow> exn + jsval) \<Rightarrow> string option \<Rightarrow> (string \<Rightarrow> jsval \<Rightarrow> exn + response)
     \<Rightarrow> HTTPMethod \<Rightarrow> string \<Rightarrow> jsval \<Rightarrow> exn + parsed_body" where
  "makeRequest new_Headers uuid fetch method path request =
     (case requestOptions new_Headers uuid method request of
        Inl e \<Rightarrow> Inl e
      | Inr options \<Rightarrow>
         (case fetch path options of
            Inl e \<Rightarrow> Inl e
          | Inr response \<Rightarrow>
             (case processResponse response of
                Inl e \<Rightarrow> Inl e
              | Inr responseBody \<Rightarrow>
                 if \<not> response_ok response
                 then (case new_APIError (response_status response)
                              (method_name method @ '':'' @ path) (trace_of uuid)
                              responseBody of
                         Inl e \<Rightarrow> Inl e
                       | Inr err \<Rightarrow> Inl (Thrown err))
                 else Inr responseBody)))"

section \<open>Notions used to state the properties\<close>

text \<open>The falsy scalars other than the absent values: \<open>false\<close>, zero and \<open>NaN\<close>.\<close>

definition falsy_scalar :: "jsval \<Rightarrow> bool" where
  "falsy_scalar v = (v = JBool False \<or> v = JNum ''0'' \<or> v = JNum ''NaN'')"

text \<open>
  What the split assembler puts in the place of one segment: the value read from the path
  parameters for a colon segment, the segment itself otherwise.
\<close>

definition substituted :: "prototypes \<Rightarrow> jsval \<Rightarrow> string \<Rightarrow> jsval" where
  "substituted inherited pathParameters segment =
     (if startsWith_colon segment then get_prop inherited pathParameters (slice1 segment)
      else JStr segment)"

text \<open>
  For the examples. A parser for bases with a scheme: for a template that starts with a
  slash and is made of letters, digits, \<open>/ : - _ . ~\<close> and spaces, without \<open>.\<close> or \<open>..\<close>
  segments, resolved against an \<open>http\<close> or \<open>https\<close> base with a host, the pathname is the
  template with every space percent-encoded. A prototype chain for examples whose keys are
  own properties. A \<open>Headers\<close> constructor that accepts the headers of the examples and
  keeps them as the plain object they are given as. A transport that answers every
  request with a given response.
\<close>

definition path_parser :: url_parser where
  "path_parser url base = Inr (concat (map (\<lambda>c. if c = CHR 0x20 then ''%20'' else [c]) url))"

definition bare_prototypes :: prototypes where
  "bare_prototypes v k = JUndefined"

definition plain_headers :: "jsval \<Rightarrow> exn + jsval" where
  "plain_headers init = Inr init"

definition respond :: "response \<Rightarrow> string \<Rightarrow> jsval \<Rightarrow> exn + response" where
  "respond r path options = Inr r"

section \<open>Facts about the sanitizer\<close>

lemma array_reduce_filter:
  "foldl (\<lambda>accum curr. let prepared = f curr
                        in if truthy prepared then accum @ [prepared] else accum) acc xs
   = acc @ filter truthy (map f xs)"
  by (induction xs arbitrary: acc) (simp_all add: Let_def)

lemma prepareParameters_array:
  "prepareParameters (JArr xs) = JArr (filter truthy (map prepareParameters xs))"
  by (simp add: array_reduce_filter)

lemma prepareParameters_not_absent: "\<not> is_absent (prepareParameters v) \<longleftrightarrow> \<not> is_absent v"
  by (cases v) (simp_all add: is_absent_def)

lemma truthy_prepared:
  "truthy (prepareParameters v)
   \<longleftrightarrow> prepareParameters v \<noteq> JNull \<and> \<not> falsy_scalar (prepareParameters v)"
  by (cases v) (auto simp: falsy_scalar_def)

lemma obj_set_keys: "fst ` set (obj_set kvs k v) = insert k (fst ` set kvs)"
  by (induction kvs) (force split: if_splits)+

lemma obj_set_distinct: "distinct (map fst kvs) \<Longrightarrow> distinct (map fst (obj_set kvs k v))"
proof (induction kvs)
  case Nil
  then show ?case by simp
next
  case (Cons a kvs)
  then show ?case
    using obj_set_keys[of kvs k v] by (cases a) (auto simp flip: set_map)
qed

lemma obj_set_entries: "set (obj_set kvs k v) \<subseteq> insert (k, v) (set kvs)"
  by (induction kvs) (auto split: if_splits)

lemma obj_set_fresh: "k \<notin> fst ` set kvs \<Longrightarrow> obj_set kvs k v = kvs @ [(k, v)]"
  by (induction kvs) auto

lemma object_reduce_distinct:
  "distinct (map fst acc) \<Longrightarrow>
   distinct (map fst (foldl (\<lambda>accum (k, v).
       if \<not> is_absent v then obj_set accum k (f v) else accum) acc kvs))"
  by (induction kvs arbitrary: acc) (auto simp: obj_set_distinct)

lemma object_reduce_entries:
  "(k, w) \<in> set (foldl (\<lambda>accum (k, v).
       if \<not> is_absent v then obj_set accum k (f v) else accum) acc kvs) \<Longrightarrow>
   (k, w) \<in> set acc \<or> (\<exists>v. (k, v) \<in> set kvs \<and> \<not> is_absent v \<and> w = f v)"
proof (induction kvs arbitrary: acc)
  case Nil
  then show ?case by simp
next
  case (Cons a kvs)
  obtain k' v' where a: "a = (k', v')" by (cases a)
  show ?case
  proof (cases "is_absent v'")
    case True
    with Cons.prems a have "(k, w) \<in> set (foldl (\<lambda>accum (k, v).
       if \<not> is_absent v then obj_set accum k (f v) else accum) acc kvs)" by simp
    from Cons.IH[OF this] show ?thesis by auto
  next
    case False
    with Cons.prems a have "(k, w) \<in> set (foldl (\<lambda>accum (k, v).
       if \<not> is_absent v then obj_set accum k (f v) else accum) (obj_set acc k' (f v')) kvs)"
      by simp
    from Cons.IH[OF this] obj_set_entries[of acc k' "f v'"] a False show ?thesis by auto
  qed
qed

lemma object_reduce_fixed:
  "distinct (map fst (acc @ kvs)) \<Longrightarrow>
   (\<And>k v. (k, v) \<in> set kvs \<Longrightarrow> \<not> is_absent v \<and> f v = v) \<Longrightarrow>
   foldl (\<lambda>accum (k, v). if \<not> is_absent v then obj_set accum k (f v) else accum) acc kvs
   = acc @ kvs"
proof (induction kvs arbitrary: acc)
  case Nil
  then show ?case by simp
next
  case (Cons a kvs)
  obtain k' v' where a: "a = (k', v')" by (cases a)
  from Cons.prems(2)[of k' v'] a have v': "\<not> is_absent v'" "f v' = v'" by auto
  from Cons.prems(1) a have fresh: "k' \<notin> fst ` set acc" by auto
  have d: "distinct (map fst ((acc @ [(k', v')]) @ kvs))" using Cons.prems(1) a by simp
  have "foldl (\<lambda>accum (k, v). if \<not> is_absent v then obj_set accum k (f v) else accum)
          (acc @ [(k', v')]) kvs = (acc @ [(k', v')]) @ kvs"
    by (rule Cons.IH[OF d]) (use Cons.prems(2) in auto)
  then show ?case using a v' fresh by (simp add: obj_set_fresh)
qed

section \<open>Facts about paths\<close>

lemma has_scheme_api_v1: "\<not> has_scheme ''/api/v1''"
  by code_simp

lemma join_strings_Cons_Cons:
  "join_strings sep ((c # s) # ss) = c # join_strings sep (s # ss)"
  by (cases ss) simp_all

lemma split_slash_not_Nil: "split_slash p \<noteq> []"
  by (induction p) (auto split: list.splits)

lemma join_split_slash: "join_strings ''/'' (split_slash p) = p"
proof (induction p)
  case Nil
  then show ?case by simp
next
  case (Cons c cs)
  obtain s ss where sp: "split_slash cs = s # ss"
    using split_slash_not_Nil[of cs] by (cases "split_slash cs") auto
  show ?case
  proof (cases "c = CHR ''/''")
    case True
    with Cons sp show ?thesis by simp
  next
    case False
    with Cons sp show ?thesis by (simp add: join_strings_Cons_Cons)
  qed
qed

lemma sublist_join_strings: "s \<in> set ss \<Longrightarrow> sublist s (join_strings sep ss)"
proof (induction sep ss rule: join_strings.induct)
  case (1 sep)
  then show ?case by simp
next
  case (2 sep t)
  then show ?case by simp
next
  case (3 sep t u us)
  show ?case
  proof (cases "s = t")
    case True
    then show ?thesis by simp
  next
    case False
    with 3 have "sublist s (join_strings sep (u # us))" by simp
    then have "sublist s ((t @ sep) @ join_strings sep (u # us))"
      by (rule sublist_order.order.trans) (rule sublist_append_leftI)
    then show ?thesis by simp
  qed
qed

lemma segment_sublist: "seg \<in> set (split_slash p) \<Longrightarrow> sublist seg p"
  using sublist_join_strings[of seg "split_slash p" "''/''"] by (simp add: join_split_slash)

lemma collect_results_strings:
  "collect_results (map (\<lambda>v. if nullish v then Inr [] else js_toString v) (map JStr xs))
   = Inr xs"
  by (induction xs) (simp_all add: nullish_def)

lemma array_join_strings: "array_join sep (map JStr xs) = Inr (join_strings sep xs)"
  by (simp only: array_join_def collect_results_strings) simp

lemma array_join_split_slash: "array_join ''/'' (map JStr (split_slash p)) = Inr p"
  by (simp add: array_join_strings join_split_slash)

lemma truthy_not_nullish: "truthy v \<Longrightarrow> \<not> nullish v"
  by (cases v) (simp_all add: nullish_def)

lemma split_segments_snd: "snd (split_segments inherited segs pp) = pp"
  by (induction segs) (auto split: sum.splits prod.splits)

lemma split_segments_values:
  "\<not> nullish pp \<Longrightarrow>
   split_segments inherited segs pp = (Inr (map (substituted inherited pp) segs), pp)"
  by (induction segs) (simp_all add: read_prop_def substituted_def)

lemma qs_stringify_question:
  "qs_stringify v = [] \<or> (\<exists>rest. qs_stringify v = CHR ''?'' # rest)"
  by (simp add: qs_stringify_def Let_def)

section \<open>Query strings of arrays\<close>

text \<open>
  The encoder itself, given an array member, repeats the key for each element. The
  builder never hands it one: its loop has already replaced the array by its JSON text.
\<close>

lemma qs_stringify_tags:
  "qs_stringify (JObj [(''tags'', JArr [JStr ''a'', JStr ''b''])]) = ''?tags=a&tags=b''"
  by code_simp

text \<open>
  C1. For the input \<open>{ tags: ['a','b'] }\<close> the builder does not return the repeated-key
  encoding \<open>?tags=a&tags=b\<close>: an array has \<open>typeof\<close> \<open>'object'\<close>, so the loop that turns
  object members into JSON text turns the array into \<open>["a","b"]\<close>, and the result is the
  percent-encoded JSON text of the array under the single key \<open>tags\<close>.
\<close>

theorem buildSearchString_tags_json:
  "buildSearchString (JObj [(''tags'', JArr [JStr ''a'', JStr ''b''])])
     = ''?tags=%5B%22a%22%2C%22b%22%5D''"
  by code_simp

section \<open>Sanitizing sequences\<close>

text \<open>
  C2, as the code has it. For every sequence, the result is a sequence of sanitized
  elements in their original order; every element that sanitizes to absent is dropped;
  and, the numbers and booleans that are falsy set aside, every other element is kept: in
  particular an object element is kept whatever it sanitizes to, the empty mapping
  included.
\<close>

theorem prepareParameters_sequence:
  "\<exists>ys. prepareParameters (JArr xs) = JArr ys
       \<and> subseq ys (map prepareParameters xs)
       \<and> (\<forall>y \<in> set ys. y \<noteq> JNull)
       \<and> filter (\<lambda>v. \<not> falsy_scalar v) ys
           = filter (\<lambda>v. v \<noteq> JNull \<and> \<not> falsy_scalar v) (map prepareParameters xs)
       \<and> (\<forall>x \<in> set xs. \<forall>kvs. prepareParameters x = JObj kvs \<longrightarrow> JObj kvs \<in> set ys)"
proof -
  let ?ys = "filter truthy (map prepareParameters xs)"
  have 1: "prepareParameters (JArr xs) = JArr ?ys" by (rule prepareParameters_array)
  have 2: "subseq ?ys (map prepareParameters xs)" by simp
  have 3: "\<forall>y \<in> set ?ys. y \<noteq> JNull" by auto
  have 4: "filter (\<lambda>v. \<not> falsy_scalar v) ?ys
           = filter (\<lambda>v. v \<noteq> JNull \<and> \<not> falsy_scalar v) (map prepareParameters xs)"
    by (induction xs) (auto simp: truthy_prepared)
  have 5: "\<forall>x \<in> set xs. \<forall>kvs. prepareParameters x = JObj kvs \<longrightarrow> JObj kvs \<in> set ?ys"
    by force
  from 1 2 3 4 5 show ?thesis by blast
qed

theorem prepareParameters_sequence_witness:
  "prepareParameters (JArr [JObj [(''a'', JStr [])], JNull, JStr ''x''])
     = JArr [JObj [], JStr ''x'']
   \<and> (\<exists>ys. prepareParameters (JArr [JObj [(''a'', JStr [])], JNull, JStr ''x'']) = JArr ys
         \<and> subseq ys (map prepareParameters [JObj [(''a'', JStr [])], JNull, JStr ''x''])
         \<and> (\<forall>y \<in> set ys. y \<noteq> JNull)
         \<and> filter (\<lambda>v. \<not> falsy_scalar v) ys
             = filter (\<lambda>v. v \<noteq> JNull \<and> \<not> falsy_scalar v)
                 (map prepareParameters [JObj [(''a'', JStr [])], JNull, JStr ''x''])
         \<and> (\<forall>x \<in> set [JObj [(''a'', JStr [])], JNull, JStr ''x''].
               \<forall>kvs. prepareParameters x = JObj kvs \<longrightarrow> JObj kvs \<in> set ys))"
proof -
  have "prepareParameters (JArr [JObj [(''a'', JStr [])], JNull, JStr ''x''])
          = JArr [JObj [], JStr ''x'']"
    by (simp add: is_absent_def)
  then show ?thesis
    using prepareParameters_sequence[of "[JObj [(''a'', JStr [])], JNull, JStr ''x'']"]
    by blast
qed

text \<open>
  The specification's wording fails on \<open>[{ a: '' }, 0, 'x']\<close>: the object sanitizes to the empty
  mapping and is kept, and \<open>0\<close>, which sanitizes to itself and not to absent, is dropped.
\<close>

theorem prepareParameters_sequence_counterexample:
  "prepareParameters (JArr [JObj [(''a'', JStr [])], JNum ''0'', JStr ''x''])
     = JArr [JObj [], JStr ''x'']
   \<and> prepareParameters (JObj [(''a'', JStr [])]) = JObj []
   \<and> prepareParameters (JNum ''0'') = JNum ''0''"
  by (simp add: is_absent_def)

section \<open>Idempotence of the sanitizer\<close>

text \<open>
  C3. Sanitizing is idempotent: for every parameter structure, sanitizing the sanitized
  value yields the sanitized value again.
\<close>

theorem prepareParameters_idempotent:
  "prepareParameters (prepareParameters P) = prepareParameters P"
proof (induction P rule: prepareParameters.induct)
  case (4 xs)
  have "filter truthy (map prepareParameters (filter truthy (map prepareParameters xs)))
        = filter truthy (map prepareParameters xs)"
    using 4 by (induction xs) auto
  then show ?case by (simp add: array_reduce_filter)
next
  case (6 kvs)
  let ?step = "\<lambda>accum (k, v).
                 if \<not> is_absent v then obj_set accum k (prepareParameters v) else accum"
  let ?ys = "foldl ?step [] kvs"
  have dist: "distinct (map fst ([] @ ?ys))"
    using object_reduce_distinct[of "[]" prepareParameters kvs] by simp
  have fixed: "\<not> is_absent w \<and> prepareParameters w = w" if "(k, w) \<in> set ?ys" for k w
  proof -
    from object_reduce_entries[OF that] obtain v where
      v: "(k, v) \<in> set kvs" "\<not> is_absent v" "w = prepareParameters v" by auto
    from 6[OF v(1) _ v(2)] v show ?thesis
      by (simp add: prepareParameters_not_absent)
  qed
  have "foldl ?step [] ?ys = [] @ ?ys"
    by (rule object_reduce_fixed[OF dist]) (use fixed in blast)
  then show ?case by simp
qed simp_all

theorem prepareParameters_idempotent_witness:
  "prepareParameters (JObj [(''a'', JArr [JStr [], JNum ''0'', JObj [(''b'', JNull)]]),
                            (''c'', JStr []), (''d'', JDate (JSDate ''2024-01-01T00:00:00.000Z'' ''Mon Jan 01 2024''))])
     = JObj [(''a'', JArr [JObj []]), (''d'', JDate (JSDate ''2024-01-01T00:00:00.000Z'' ''Mon Jan 01 2024''))]
   \<and> prepareParameters (JObj [(''a'', JArr [JObj []]), (''d'', JDate (JSDate ''2024-01-01T00:00:00.000Z'' ''Mon Jan 01 2024''))])
     = JObj [(''a'', JArr [JObj []]), (''d'', JDate (JSDate ''2024-01-01T00:00:00.000Z'' ''Mon Jan 01 2024''))]"
proof -
  let ?P = "JObj [(''a'', JArr [JStr [], JNum ''0'', JObj [(''b'', JNull)]]),
                  (''c'', JStr []), (''d'', JDate (JSDate ''2024-01-01T00:00:00.000Z'' ''Mon Jan 01 2024''))]"
  have e: "prepareParameters ?P
           = JObj [(''a'', JArr [JObj []]), (''d'', JDate (JSDate ''2024-01-01T00:00:00.000Z'' ''Mon Jan 01 2024''))]"
    by (simp add: is_absent_def)
  from prepareParameters_idempotent[of ?P] e show ?thesis by simp
qed

section \<open>Empty query strings\<close>

text \<open>
  C4. The builder returns the empty string for \<open>{}\<close>, \<open>undefined\<close> and \<open>null\<close>, and
  whenever its input sanitizes to nothing (to absent, or to the empty mapping); a result
  that is not empty begins with \<open>?\<close>.
\<close>

theorem buildSearchString_empty:
  "buildSearchString (JObj []) = []
   \<and> buildSearchString JUndefined = []
   \<and> buildSearchString JNull = []
   \<and> (prepareParameters params = JNull \<longrightarrow> buildSearchString params = [])
   \<and> (prepareParameters params = JObj [] \<longrightarrow> buildSearchString params = [])
   \<and> (buildSearchString params \<noteq> []
        \<longrightarrow> (\<exists>rest. buildSearchString params = CHR ''?'' # rest))"
proof -
  have 1: "buildSearchString (JObj []) = []"
    by (simp add: buildSearchString_def qs_stringify_def is_typeof_object_def)
  have 2: "buildSearchString JUndefined = []" by (simp add: buildSearchString_def)
  have 3: "buildSearchString JNull = []" by (simp add: buildSearchString_def)
  have 4: "prepareParameters params = JNull \<longrightarrow> buildSearchString params = []"
    by (simp add: buildSearchString_def)
  have 5: "prepareParameters params = JObj [] \<longrightarrow> buildSearchString params = []"
    by (simp add: buildSearchString_def qs_stringify_def is_typeof_object_def)
  have 6: "buildSearchString params \<noteq> []
           \<longrightarrow> (\<exists>rest. buildSearchString params = CHR ''?'' # rest)"
    using qs_stringify_question by (auto simp: buildSearchString_def Let_def)
  from 1 2 3 4 5 6 show ?thesis by blast
qed

theorem buildSearchString_empty_witness:
  "prepareParameters (JStr []) = JNull \<and> buildSearchString (JStr []) = []
   \<and> prepareParameters (JObj [(''q'', JStr [])]) = JObj []
   \<and> buildSearchString (JObj [(''q'', JStr [])]) = []
   \<and> buildSearchString (JObj [(''active'', JBool True)]) = ''?active=true''"
proof -
  have a: "prepareParameters (JStr []) = JNull" by simp
  have b: "prepareParameters (JObj [(''q'', JStr [])]) = JObj []" by (simp add: is_absent_def)
  have c: "buildSearchString (JObj [(''active'', JBool True)]) = ''?active=true''"
    by code_simp
  from a b c buildSearchString_empty[of "JStr []"]
    buildSearchString_empty[of "JObj [(''q'', JStr [])]"]
    buildSearchString_empty[of "JObj [(''active'', JBool True)]"]
  show ?thesis by simp
qed

section \<open>The merged assembler on a relative base path\<close>

text \<open>
  With an empty base path and the whole path in the template, the merged assembler
  produces the URL of the example.
\<close>

lemma buildMergedRequestInit_users_42_empty_base:
  "buildMergedRequestInit absolute inherited GET [] ''/api/v1/users/:id''
     (JObj [(''id'', JStr ''42''), (''active'', JBool True)]) JUndefined
   = Inr (GET, ''/api/v1/users/42?active=true'', JUndefined)"
  by code_simp

text \<open>
  C5. \<open>buildMergedRequestInit('GET', '/api/v1', '/users/:id', { id: '42', active: true })\<close>
  returns nothing: the base path \<open>/api/v1\<close> is not empty, so the template is resolved with
  \<open>new URL('/users/:id', '/api/v1')\<close>, and that constructor throws a \<open>TypeError\<close>, the
  base having no scheme.
\<close>

theorem buildMergedRequestInit_users_42_throws:
  "buildMergedRequestInit absolute inherited GET ''/api/v1'' ''/users/:id''
     (JObj [(''id'', JStr ''42''), (''active'', JBool True)]) requestInit = Inl TypeError"
  by (simp add: buildMergedRequestInit_def JSON_parse_stringify_def or_empty_def
      resolve_pathname_def URL_pathname_def has_scheme_api_v1)

section \<open>The merged assembler on methods other than GET\<close>

text \<open>
  With an empty base path and the whole path in the template, the merged assembler
  returns the URL without a query string and the parameters as the body, a structure and
  not its text.
\<close>

lemma buildMergedRequestInit_login_empty_base:
  "buildMergedRequestInit absolute inherited POST [] ''/api/v1/login''
     (JObj [(''username'', JStr ''a''), (''password'', JStr ''b'')]) JUndefined
   = Inr (POST, ''/api/v1/login'',
          JObj [(''body'', JObj [(''username'', JStr ''a''), (''password'', JStr ''b'')])])"
  by code_simp

text \<open>
  C6. \<open>buildMergedRequestInit('POST', '/api/v1', '/login', { username: 'a', password:
  'b' })\<close> returns nothing, neither the URL \<open>/api/v1/login\<close> nor a body: as for \<open>GET\<close>,
  the base path \<open>/api/v1\<close> is not empty, the template is resolved with
  \<open>new URL('/login', '/api/v1')\<close>, and that constructor throws a \<open>TypeError\<close>.
\<close>

theorem buildMergedRequestInit_login_throws:
  "buildMergedRequestInit absolute inherited POST ''/api/v1'' ''/login''
     (JObj [(''username'', JStr ''a''), (''password'', JStr ''b'')]) requestInit = Inl TypeError"
  by (simp add: buildMergedRequestInit_def JSON_parse_stringify_def or_empty_def
      resolve_pathname_def URL_pathname_def has_scheme_api_v1)

section \<open>The split assembler leaves the path parameters alone\<close>

text \<open>
  C7. The split assembler never changes its path-parameter argument: after every call,
  returning or throwing, the path-parameter object is what it was before. When the call
  returns, the URL is the base path, then the segments of the path joined by slashes, each
  colon segment replaced by the value read under its key, then the query string built
  from the query parameters alone; and the request options are the given options with
  the body argument as \<open>body\<close>. So no path-parameter key enters the query string or the
  body.
\<close>

theorem buildSplitRequestInit_frame:
  "snd (buildSplitRequestInit absolute inherited method basePath unboundPath pathParameters
          queryParameters body requestInit) = pathParameters
   \<and> (\<forall>m url init.
        fst (buildSplitRequestInit absolute inherited method basePath unboundPath
               pathParameters queryParameters body requestInit) = Inr (m, url, init)
        \<longrightarrow> m = method
            \<and> (\<exists>pathname joined.
                  resolve_pathname absolute basePath unboundPath = Inr pathname
                  \<and> array_join ''/''
                        (if truthy pathParameters
                         then map (substituted inherited pathParameters) (split_slash pathname)
                         else map JStr (split_slash pathname)) = Inr joined
                  \<and> url = basePath @ joined @ buildSearchString queryParameters)
            \<and> init = JObj (obj_set (spread_with [] (or_empty requestInit)) ''body'' body))"
proof (cases "resolve_pathname absolute basePath unboundPath")
  case (Inl e)
  then show ?thesis by (simp add: buildSplitRequestInit_def)
next
  case (Inr pathname)
  let ?segs = "if truthy pathParameters
               then map (substituted inherited pathParameters) (split_slash pathname)
               else map JStr (split_slash pathname)"
  have loop: "(if truthy pathParameters
               then split_segments inherited (split_slash pathname) pathParameters
               else (Inr (map JStr (split_slash pathname)), pathParameters))
              = (Inr ?segs, pathParameters)"
    by (simp add: split_segments_values truthy_not_nullish)
  show ?thesis
  proof (cases "array_join ''/'' ?segs")
    case (Inl e)
    with Inr loop show ?thesis by (simp add: buildSplitRequestInit_def)
  next
    case joined: (Inr joined)
    with Inr loop show ?thesis by (simp add: buildSplitRequestInit_def)
  qed
qed

theorem buildSplitRequestInit_frame_witness:
  "buildSplitRequestInit path_parser bare_prototypes GET ''https://example.com/api/v1''
       ''/users/:id'' (JObj [(''id'', JStr ''7'')]) (JObj [(''includeProfile'', JBool True)])
       JUndefined JUndefined
     = (Inr (GET, ''https://example.com/api/v1/users/7?includeProfile=true'',
             JObj [(''body'', JUndefined)]),
        JObj [(''id'', JStr ''7'')])
   \<and> array_join ''/'' (map (substituted bare_prototypes (JObj [(''id'', JStr ''7'')]))
                         (split_slash ''/users/:id'')) = Inr ''/users/7''
   \<and> buildSearchString (JObj [(''includeProfile'', JBool True)]) = ''?includeProfile=true''
   \<and> buildSplitRequestInit path_parser bare_prototypes GET ''/api/v1'' ''/users/:id''
       (JObj [(''id'', JStr ''7'')]) (JObj [(''includeProfile'', JBool True)])
       JUndefined JUndefined
     = (Inl TypeError, JObj [(''id'', JStr ''7'')])"
proof -
  let ?pp = "JObj [(''id'', JStr ''7'')]"
  let ?q = "JObj [(''includeProfile'', JBool True)]"
  let ?R = "buildSplitRequestInit path_parser bare_prototypes GET ''https://example.com/api/v1''
              ''/users/:id'' ?pp ?q JUndefined JUndefined"
  let ?T = "buildSplitRequestInit path_parser bare_prototypes GET ''/api/v1''
              ''/users/:id'' ?pp ?q JUndefined JUndefined"
  have run: "fst ?R = Inr (GET, ''https://example.com/api/v1/users/7?includeProfile=true'',
                           JObj [(''body'', JUndefined)])"
    by code_simp
  have thrown: "fst ?T = Inl TypeError"
    by (simp add: buildSplitRequestInit_def resolve_pathname_def URL_pathname_def
          has_scheme_api_v1)
  have j: "array_join ''/'' (map (substituted bare_prototypes ?pp) (split_slash ''/users/:id''))
           = Inr ''/users/7''"
    by code_simp
  have q: "buildSearchString ?q = ''?includeProfile=true''" by code_simp
  from buildSplitRequestInit_frame[of path_parser bare_prototypes GET
         "''https://example.com/api/v1''" "''/users/:id''" ?pp ?q JUndefined JUndefined]
  have a: "snd ?R = ?pp" by blast
  from buildSplitRequestInit_frame[of path_parser bare_prototypes GET
         "''/api/v1''" "''/users/:id''" ?pp ?q JUndefined JUndefined]
  have b: "snd ?T = ?pp" by blast
  from run a have r: "?R = (Inr (GET, ''https://example.com/api/v1/users/7?includeProfile=true'',
                           JObj [(''body'', JUndefined)]), ?pp)"
    by (metis prod.collapse)
  from thrown b have t: "?T = (Inl TypeError, ?pp)" by (metis prod.collapse)
  from r t j q show ?thesis by simp
qed

section \<open>The split assembler without path parameters\<close>

text \<open>
  C10, as the code has it. When the path-parameter argument is omitted or falsy, no
  substitution takes place: the returned URL is the base path, then the pathname the
  assembler works on exactly as it stands, every colon segment included, then the query
  string. That pathname is the template itself when the base path is empty, and otherwise
  what \<open>new URL(template, base).pathname\<close> yields.
\<close>

theorem buildSplitRequestInit_no_substitution:
  assumes "\<not> truthy pathParameters"
      and "resolve_pathname absolute basePath unboundPath = Inr pathname"
  shows "\<exists>url. fst (buildSplitRequestInit absolute inherited method basePath unboundPath
                     pathParameters queryParameters body requestInit)
               = Inr (method, url,
                      JObj (obj_set (spread_with [] (or_empty requestInit)) ''body'' body))
             \<and> url = basePath @ pathname @ buildSearchString queryParameters
             \<and> (\<forall>segment \<in> set (split_slash pathname).
                   startsWith_colon segment \<longrightarrow> sublist segment url)
             \<and> (basePath = [] \<longrightarrow> pathname = unboundPath)"
proof -
  let ?url = "basePath @ pathname @ buildSearchString queryParameters"
  have run: "fst (buildSplitRequestInit absolute inherited method basePath unboundPath
                     pathParameters queryParameters body requestInit)
               = Inr (method, ?url,
                      JObj (obj_set (spread_with [] (or_empty requestInit)) ''body'' body))"
    using assms by (simp add: buildSplitRequestInit_def array_join_split_slash)
  have seg: "sublist segment ?url" if "segment \<in> set (split_slash pathname)" for segment
  proof -
    from that have "sublist segment pathname" by (rule segment_sublist)
    then show ?thesis
      by (rule sublist_order.order.trans) (rule sublist_appendI)
  qed
  have same: "basePath = [] \<longrightarrow> pathname = unboundPath"
    using assms(2) by (auto simp: resolve_pathname_def)
  from run seg same show ?thesis by blast
qed

theorem buildSplitRequestInit_no_substitution_witness:
  "\<not> truthy JUndefined \<and> \<not> truthy JNull
   \<and> resolve_pathname path_parser [] ''/api/v1/users/:id/posts/:postId''
       = Inr ''/api/v1/users/:id/posts/:postId''
   \<and> fst (buildSplitRequestInit path_parser bare_prototypes GET []
            ''/api/v1/users/:id/posts/:postId''
            JUndefined (JObj [(''includeProfile'', JBool True)]) JUndefined JUndefined)
       = Inr (GET, ''/api/v1/users/:id/posts/:postId?includeProfile=true'',
              JObj [(''body'', JUndefined)])
   \<and> resolve_pathname path_parser ''https://example.com/api/v1'' ''/users/:id''
       = Inr ''/users/:id''
   \<and> fst (buildSplitRequestInit path_parser bare_prototypes GET ''https://example.com/api/v1''
            ''/users/:id'' JNull JUndefined JUndefined JUndefined)
       = Inr (GET, ''https://example.com/api/v1/users/:id'', JObj [(''body'', JUndefined)])
   \<and> '':id'' \<in> set (split_slash ''/users/:id'') \<and> startsWith_colon '':id''"
proof -
  have t: "\<not> truthy JUndefined" "\<not> truthy JNull" by simp_all
  have r: "resolve_pathname path_parser [] ''/api/v1/users/:id/posts/:postId''
             = Inr ''/api/v1/users/:id/posts/:postId''"
    by (simp add: resolve_pathname_def)
  have r2: "resolve_pathname path_parser ''https://example.com/api/v1'' ''/users/:id''
             = Inr ''/users/:id''"
    by code_simp
  have q: "buildSearchString (JObj [(''includeProfile'', JBool True)]) = ''?includeProfile=true''"
    by code_simp
  have q0: "buildSearchString JUndefined = []" by (simp add: buildSearchString_def)
  have i: "JObj (obj_set (spread_with [] (or_empty JUndefined)) ''body'' JUndefined)
           = JObj [(''body'', JUndefined)]"
    by (simp add: or_empty_def spread_with_def)
  have s: "'':id'' \<in> set (split_slash ''/users/:id'')" "startsWith_colon '':id''"
    by code_simp+
  from buildSplitRequestInit_no_substitution[OF t(1) r, of bare_prototypes GET
         "JObj [(''includeProfile'', JBool True)]" JUndefined JUndefined]
  have a: "fst (buildSplitRequestInit path_parser bare_prototypes GET []
            ''/api/v1/users/:id/posts/:postId''
            JUndefined (JObj [(''includeProfile'', JBool True)]) JUndefined JUndefined)
       = Inr (GET, ''/api/v1/users/:id/posts/:postId?includeProfile=true'',
              JObj [(''body'', JUndefined)])"
    using q i by auto
  from buildSplitRequestInit_no_substitution[OF t(2) r2, of bare_prototypes GET
         JUndefined JUndefined JUndefined]
  have b: "fst (buildSplitRequestInit path_parser bare_prototypes GET ''https://example.com/api/v1''
            ''/users/:id'' JNull JUndefined JUndefined JUndefined)
       = Inr (GET, ''https://example.com/api/v1/users/:id'', JObj [(''body'', JUndefined)])"
    using q0 i by auto
  from t r r2 a b s show ?thesis by simp
qed

text \<open>
  The specification's wording, which speaks of the segments of the template, fails when
  the base path has a scheme and resolving changes a segment: against
  \<open>https://example.com\<close> the template \<open>/files/:file name\<close> resolves to
  \<open>/files/:file%20name\<close>, and the colon segment of the template is not in the URL.
\<close>

theorem buildSplitRequestInit_no_substitution_counterexample:
  "fst (buildSplitRequestInit path_parser bare_prototypes GET ''https://example.com''
          ''/files/:file name'' JUndefined JUndefined JUndefined JUndefined)
     = Inr (GET, ''https://example.com/files/:file%20name'', JObj [(''body'', JUndefined)])
   \<and> '':file name'' \<in> set (filter startsWith_colon (split_slash ''/files/:file name''))
   \<and> \<not> sublist '':file name'' ''https://example.com/files/:file%20name''"
  by code_simp

section \<open>Dispatch on the content type\<close>

text \<open>
  C9. Parsing a response body dispatches on the exact value of the \<open>Content-Type\<close>
  header: \<open>application/json\<close> is read as JSON, \<open>application/pdf\<close> as a blob,
  \<open>multipart/form-data\<close> and \<open>application/x-www-form-urlencoded\<close> as form data, and
  every other value, an absent header included, as text.
\<close>

theorem processResponse_dispatch:
  "processResponse (r\<lparr>response_Content_Type := Some ''application/json''\<rparr>)
     = map_sum id JsonBody (json_outcome r)
   \<and> processResponse (r\<lparr>response_Content_Type := Some ''application/pdf''\<rparr>)
     = map_sum id BlobBody (blob_outcome r)
   \<and> processResponse (r\<lparr>response_Content_Type := Some ''multipart/form-data''\<rparr>)
     = map_sum id FormDataBody (formData_outcome r)
   \<and> processResponse (r\<lparr>response_Content_Type := Some ''application/x-www-form-urlencoded''\<rparr>)
     = map_sum id FormDataBody (formData_outcome r)
   \<and> (ct \<notin> {Some ''application/json'', Some ''application/pdf'', Some ''multipart/form-data'',
              Some ''application/x-www-form-urlencoded''}
      \<longrightarrow> processResponse (r\<lparr>response_Content_Type := ct\<rparr>)
            = map_sum id TextBody (text_outcome r))"
  by (simp add: processResponse_def)

theorem processResponse_dispatch_witness:
  "processResponse \<lparr>response_status = 200, response_Content_Type = None,
       json_outcome = Inl SyntaxError, blob_outcome = Inr ''hello'',
       formData_outcome = Inl TypeError, text_outcome = Inr ''hello''\<rparr> = Inr (TextBody ''hello'')
   \<and> processResponse \<lparr>response_status = 200,
       response_Content_Type = Some ''application/json; charset=utf-8'',
       json_outcome = Inr (JObj [(''ok'', JBool True)]), blob_outcome = Inr ''okay'',
       formData_outcome = Inl TypeError, text_outcome = Inr ''okay''\<rparr>
     = Inr (TextBody ''okay'')"
proof -
  let ?r1 = "\<lparr>response_status = 200, response_Content_Type = None,
       json_outcome = Inl SyntaxError, blob_outcome = Inr ''hello'',
       formData_outcome = Inl TypeError, text_outcome = Inr ''hello''\<rparr>"
  let ?r2 = "\<lparr>response_status = 200,
       response_Content_Type = Some ''application/json; charset=utf-8'',
       json_outcome = Inr (JObj [(''ok'', JBool True)]), blob_outcome = Inr ''okay'',
       formData_outcome = Inl TypeError, text_outcome = Inr ''okay''\<rparr>"
  from processResponse_dispatch[of ?r1 None]
       processResponse_dispatch[of ?r2 "Some ''application/json; charset=utf-8''"]
  show ?thesis by simp
qed

section \<open>Outcome of a request\<close>

text \<open>
  C8, as the code has it. Given the response that the transport delivers: when reading
  the body fails, that failure is what the call raises; when the body is read and the
  status is 2xx, the call returns the parsed body; when the body is read and the status is
  not 2xx, the message is taken from the body's \<open>error\<close> field when that is truthy,
  otherwise from its \<open>message\<close> field when that is truthy, otherwise from the status, and is
  turned into text; the call then raises an \<open>APIError\<close> that carries the status, the
  request identifier \<open>METHOD:PATH\<close>, the trace id and that text, and nothing else. When the
  message cannot be turned into text, the call raises the error of that conversion.
\<close>

theorem makeRequest_outcome:
  assumes "requestOptions new_Headers uuid method request = Inr options"
      and "fetch path options = Inr r"
  shows "(\<forall>e. processResponse r = Inl e
              \<longrightarrow> makeRequest new_Headers uuid fetch method path request = Inl e)
       \<and> (\<forall>b. processResponse r = Inr b \<and> response_ok r
              \<longrightarrow> makeRequest new_Headers uuid fetch method path request = Inr b)
       \<and> (\<forall>b. processResponse r = Inr b \<and> \<not> response_ok r
              \<longrightarrow> (case js_toString
                           (if truthy (body_prop b ''error'') then body_prop b ''error''
                            else if truthy (body_prop b ''message'')
                            then body_prop b ''message''
                            else JNum (show_nat (unat (response_status r)))) of
                     Inl e \<Rightarrow> makeRequest new_Headers uuid fetch method path request = Inl e
                   | Inr t \<Rightarrow>
                       makeRequest new_Headers uuid fetch method path request
                       = Inl (Thrown \<lparr>name = ''APIError'', message = t,
                                      status = response_status r,
                                      requestIdentifier = method_name method @ '':'' @ path,
                                      traceId = trace_of uuid\<rparr>)))"
  using assms
  by (auto simp: makeRequest_def new_APIError_def Let_def split: sum.splits)

theorem makeRequest_outcome_witness:
  "makeRequest plain_headers (Some ''trace-1'')
       (respond \<lparr>response_status = 404, response_Content_Type = Some ''application/json'',
                 json_outcome = Inr (JObj [(''error'', JStr ''not found'')]),
                 blob_outcome = Inr ''raw'', formData_outcome = Inl TypeError,
                 text_outcome = Inr ''raw''\<rparr>)
       GET ''/users/1'' JUndefined
     = Inl (Thrown \<lparr>name = ''APIError'', message = ''not found'', status = 404,
                    requestIdentifier = ''GET:/users/1'', traceId = ''trace-1''\<rparr>)
   \<and> makeRequest plain_headers (Some ''trace-1'')
       (respond \<lparr>response_status = 200, response_Content_Type = Some ''application/json'',
                 json_outcome = Inr (JObj [(''token'', JStr ''t0'')]),
                 blob_outcome = Inr ''raw'', formData_outcome = Inl TypeError,
                 text_outcome = Inr ''raw''\<rparr>)
       GET ''/users/1'' JUndefined
     = Inr (JsonBody (JObj [(''token'', JStr ''t0'')]))
   \<and> makeRequest plain_headers (Some ''trace-1'')
       (respond \<lparr>response_status = 502, response_Content_Type = Some ''application/json'',
                 json_outcome = Inl SyntaxError,
                 blob_outcome = Inr ''raw'', formData_outcome = Inl TypeError,
                 text_outcome = Inr ''raw''\<rparr>)
       GET ''/users/1'' JUndefined
     = Inl SyntaxError"
proof -
  let ?r = "\<lparr>response_status = 404, response_Content_Type = Some ''application/json'',
             json_outcome = Inr (JObj [(''error'', JStr ''not found'')]),
             blob_outcome = Inr ''raw'', formData_outcome = Inl TypeError,
             text_outcome = Inr ''raw''\<rparr>"
  let ?b = "JsonBody (JObj [(''error'', JStr ''not found'')])"
  let ?r2 = "\<lparr>response_status = 200, response_Content_Type = Some ''application/json'',
                 json_outcome = Inr (JObj [(''token'', JStr ''t0'')]),
                 blob_outcome = Inr ''raw'', formData_outcome = Inl TypeError,
                 text_outcome = Inr ''raw''\<rparr>"
  let ?r3 = "\<lparr>response_status = 502, response_Content_Type = Some ''application/json'',
                 json_outcome = Inl SyntaxError,
                 blob_outcome = Inr ''raw'', formData_outcome = Inl TypeError,
                 text_outcome = Inr ''raw''\<rparr>"
  let ?options = "JObj [(''method'', JStr ''GET''), (''credentials'', JStr ''include''),
                        (''mode'', JStr ''cors''),
                        (''headers'', JObj [(''Accept'', JStr ''application/json''),
                                            (''Content-Type'', JStr ''application/json''),
                                            (''X-Trace'', JStr ''trace-1'')])]"
  have o: "requestOptions plain_headers (Some ''trace-1'') GET JUndefined = Inr ?options"
    by code_simp
  have f: "respond ?r ''/users/1'' ?options = Inr ?r"
    by (simp add: respond_def)
  have p: "processResponse ?r = Inr ?b"
    by (simp add: processResponse_def)
  have n: "\<not> response_ok ?r" by (simp add: response_ok_def)
  have m: "js_toString (if truthy (body_prop ?b ''error'') then body_prop ?b ''error''
                        else if truthy (body_prop ?b ''message'') then body_prop ?b ''message''
                        else JNum (show_nat (unat (response_status ?r)))) = Inr ''not found''"
    by (simp add: optional_prop_def)
  from makeRequest_outcome[of plain_headers "Some ''trace-1''" GET JUndefined ?options
         "respond ?r" "''/users/1''" ?r, OF o f] p n
  have "case js_toString (if truthy (body_prop ?b ''error'') then body_prop ?b ''error''
                        else if truthy (body_prop ?b ''message'') then body_prop ?b ''message''
                        else JNum (show_nat (unat (response_status ?r)))) of
          Inl e \<Rightarrow> makeRequest plain_headers (Some ''trace-1'') (respond ?r) GET ''/users/1''
                     JUndefined = Inl e
        | Inr t \<Rightarrow> makeRequest plain_headers (Some ''trace-1'') (respond ?r) GET ''/users/1''
                     JUndefined
             = Inl (Thrown \<lparr>name = ''APIError'', message = t, status = response_status ?r,
                            requestIdentifier = method_name GET @ '':'' @ ''/users/1'',
                            traceId = trace_of (Some ''trace-1'')\<rparr>)"
    by blast
  with m have "makeRequest plain_headers (Some ''trace-1'') (respond ?r) GET ''/users/1''
                 JUndefined
             = Inl (Thrown \<lparr>name = ''APIError'', message = ''not found'',
                            status = response_status ?r,
                            requestIdentifier = method_name GET @ '':'' @ ''/users/1'',
                            traceId = trace_of (Some ''trace-1'')\<rparr>)"
    by (simp only: sum.case)
  then have one: "makeRequest plain_headers (Some ''trace-1'') (respond ?r) GET ''/users/1''
                    JUndefined
     = Inl (Thrown \<lparr>name = ''APIError'', message = ''not found'', status = 404,
                    requestIdentifier = ''GET:/users/1'', traceId = ''trace-1''\<rparr>)"
    by (simp add: trace_of_def)
  have f2: "respond ?r2 ''/users/1'' ?options = Inr ?r2"
    by (simp add: respond_def)
  have p2: "processResponse ?r2 = Inr (JsonBody (JObj [(''token'', JStr ''t0'')]))"
    by (simp add: processResponse_def)
  have ok2: "response_ok ?r2" by (simp add: response_ok_def)
  from makeRequest_outcome[of plain_headers "Some ''trace-1''" GET JUndefined ?options
         "respond ?r2" "''/users/1''" ?r2, OF o f2] p2 ok2
  have two: "makeRequest plain_headers (Some ''trace-1'') (respond ?r2) GET ''/users/1''
               JUndefined
             = Inr (JsonBody (JObj [(''token'', JStr ''t0'')]))"
    by blast
  have f3: "respond ?r3 ''/users/1'' ?options = Inr ?r3"
    by (simp add: respond_def)
  have p3: "processResponse ?r3 = Inl SyntaxError"
    by (simp add: processResponse_def)
  from makeRequest_outcome[of plain_headers "Some ''trace-1''" GET JUndefined ?options
         "respond ?r3" "''/users/1''" ?r3, OF o f3] p3
  have three: "makeRequest plain_headers (Some ''trace-1'') (respond ?r3) GET ''/users/1''
                 JUndefined
               = Inl SyntaxError"
    by blast
  from one two three show ?thesis by blast
qed

text \<open>
  The specification's wording fails: the error does not carry the parsed body. Two
  responses whose bodies differ outside the \<open>error\<close> field raise the same error.
\<close>

theorem makeRequest_error_body_counterexample:
  "makeRequest plain_headers None
     (respond \<lparr>response_status = 404, response_Content_Type = Some ''application/json'',
               json_outcome = Inr (JObj [(''error'', JStr ''not found''), (''id'', JNum ''1'')]),
               blob_outcome = Inr ''raw'', formData_outcome = Inl TypeError,
               text_outcome = Inr ''raw''\<rparr>)
     GET ''/users/1'' JUndefined
   = Inl (Thrown \<lparr>name = ''APIError'', message = ''not found'', status = 404,
                  requestIdentifier = ''GET:/users/1'', traceId = []\<rparr>)
   \<and> makeRequest plain_headers None
     (respond \<lparr>response_status = 404, response_Content_Type = Some ''application/json'',
               json_outcome = Inr (JObj [(''error'', JStr ''not found''), (''id'', JNum ''2'')]),
               blob_outcome = Inr ''raw'', formData_outcome = Inl TypeError,
               text_outcome = Inr ''raw''\<rparr>)
     GET ''/users/1'' JUndefined
   = Inl (Thrown \<lparr>name = ''APIError'', message = ''not found'', status = 404,
                  requestIdentifier = ''GET:/users/1'', traceId = []\<rparr>)
   \<and> JObj [(''error'', JStr ''not found''), (''id'', JNum ''1'')]
       \<noteq> JObj [(''error'', JStr ''not found''), (''id'', JNum ''2'')]"
  by code_simp

text \<open>
  A body that cannot be read raises the reader's error, not an \<open>APIError\<close>; an \<open>error\<close>
  field that is present but empty gives way to the \<open>message\<close> field; an \<open>error\<close> field
  that is an object with a \<open>toString\<close> property of its own cannot be turned into text; and
  a number is rendered as \<open>String\<close> renders it.
\<close>

lemma makeRequest_decode_failure:
  "makeRequest plain_headers None
     (respond \<lparr>response_status = 502, response_Content_Type = Some ''application/json'',
               json_outcome = Inl SyntaxError,
               blob_outcome = Inr ''Bad Gateway'', formData_outcome = Inl TypeError,
               text_outcome = Inr ''Bad Gateway''\<rparr>)
     GET ''/users/1'' JUndefined = Inl SyntaxError"
  by code_simp

lemma makeRequest_empty_error_field:
  "makeRequest plain_headers None
     (respond \<lparr>response_status = 500, response_Content_Type = Some ''application/json'',
               json_outcome = Inr (JObj [(''error'', JStr []), (''message'', JStr ''boom'')]),
               blob_outcome = Inr ''raw'', formData_outcome = Inl TypeError,
               text_outcome = Inr ''raw''\<rparr>)
     POST ''/jobs'' JUndefined
   = Inl (Thrown \<lparr>name = ''APIError'', message = ''boom'', status = 500,
                  requestIdentifier = ''POST:/jobs'', traceId = []\<rparr>)"
  by code_simp

lemma makeRequest_message_conversion_throws:
  "makeRequest plain_headers None
     (respond \<lparr>response_status = 404, response_Content_Type = Some ''application/json'',
               json_outcome = Inr (JObj [(''error'', JObj [(''toString'', JNum ''1'')])]),
               blob_outcome = Inr ''raw'', formData_outcome = Inl TypeError,
               text_outcome = Inr ''raw''\<rparr>)
     GET ''/users/1'' JUndefined = Inl TypeError"
  by code_simp

lemma makeRequest_large_number_message:
  "makeRequest plain_headers None
     (respond \<lparr>response_status = 404, response_Content_Type = Some ''application/json'',
               json_outcome = Inr (JObj [(''error'', JNum ''1e+21'')]),
               blob_outcome = Inr ''raw'', formData_outcome = Inl TypeError,
               text_outcome = Inr ''raw''\<rparr>)
     GET ''/users/1'' JUndefined
   = Inl (Thrown \<lparr>name = ''APIError'', message = ''1e+21'', status = 404,
                  requestIdentifier = ''GET:/users/1'', traceId = []\<rparr>)"
  by code_simp

end
